theory Spec2Isabelle
  imports Complex_Main
begin

section \<open>Conventions of the embedding\<close>

text \<open>
  The repository holds two notebooks: the recursive least-squares estimator
  (\<^verbatim>\<open>course_2/Week 1/C2M1L2.ipynb\<close>) and the longitudinal vehicle model
  (\<^verbatim>\<open>course_1/Course1_Longitudinal_Vehicle_Model.ipynb\<close>).

  Exceptions are values of the type \<open>pyerr\<close>; an operation that can raise returns
  \<open>pyerr + 'a\<close>, with \<open>Inl\<close> for the exception. A statement that mutates the notebook or an
  object returns the exception, if any, together with the state as the assignments made
  so far have left it.

  The estimator's arrays hold real numbers, which stand in for NumPy's float64: the
  rounding of float64 is not modelled, and no theorem of a claim below rests on the value
  of a floating-point operation, only on literals, shapes and the order of statements. The
  vehicle model takes its arithmetic as a parameter, so that what is proved of it holds
  for every arithmetic, the rounded and overflowing one of Python included.
\<close>

datatype pyerr =
  IndexError | LinAlgError | ValueError | ZeroDivisionError | OverflowError | NotModelled

text \<open>
  \<open>NotModelled\<close> is no Python exception. It marks operands outside the fragment of NumPy
  written out below (broadcasting between unequal shapes, results of dimension 0,
  inverses of matrices larger than 2 by 2).
\<close>

definition then_do :: "pyerr + 'a \<Rightarrow> ('a \<Rightarrow> pyerr + 'b) \<Rightarrow> pyerr + 'b" where
  "then_do r f = (case r of Inl e \<Rightarrow> Inl e | Inr y \<Rightarrow> f y)"

section \<open>The fragment of NumPy the estimator uses\<close>

text \<open>
  An array of dimension 0 (a scalar) is \<open>Scal\<close>, an array of dimension 1 is \<open>Vec\<close>, an
  array of dimension 2 is \<open>Mat\<close> (the list of its rows). The notebook's \<^verbatim>\<open>x_k\<close> has shape (2,), \<^verbatim>\<open>P_k\<close> shape (2,2), \<^verbatim>\<open>H_k\<close> shape
  (1,2), \<^verbatim>\<open>K_k\<close> shape (2,1), \<^verbatim>\<open>R_k\<close> shape (1,1), \<^verbatim>\<open>I\<close> and \<^verbatim>\<open>V\<close> shape (5,1).
\<close>

datatype ndarray = Scal real | Vec "real list" | Mat "real list list"

definition dotp :: "real list \<Rightarrow> real list \<Rightarrow> real" where
  "dotp u w = sum_list (map2 (*) u w)"

definition ncols :: "real list list \<Rightarrow> nat" where
  "ncols rows = (case rows of [] \<Rightarrow> 0 | r # _ \<Rightarrow> length r)"

definition column :: "real list list \<Rightarrow> nat \<Rightarrow> real list" where
  "column rows j = map (\<lambda>r. r ! j) rows"

definition columns :: "real list list \<Rightarrow> real list list" where
  "columns rows = map (column rows) [0..<ncols rows]"

text \<open>\<^verbatim>\<open>a.T\<close>: the transpose; an array of dimension 1 is its own transpose.\<close>

fun np_T :: "ndarray \<Rightarrow> ndarray" where
  "np_T (Scal z) = Scal z"
| "np_T (Vec u) = Vec u"
| "np_T (Mat rows) = Mat (columns rows)"

text \<open>
  \<^verbatim>\<open>np.dot(a, b)\<close>: the matrix product of two arrays of dimension 2, the
  matrix-vector product when one operand has dimension 1; mismatched inner lengths raise
  \<^verbatim>\<open>ValueError\<close>. Products with a scalar operand are outside the fragment.
\<close>

fun np_dot :: "ndarray \<Rightarrow> ndarray \<Rightarrow> pyerr + ndarray" where
  "np_dot (Mat a) (Mat b) =
     (if ncols a = length b
      then Inr (Mat (map (\<lambda>r. map (dotp r) (columns b)) a))
      else Inl ValueError)"
| "np_dot (Mat a) (Vec w) =
     (if ncols a = length w then Inr (Vec (map (\<lambda>r. dotp r w) a)) else Inl ValueError)"
| "np_dot (Vec u) (Mat b) =
     (if length u = length b then Inr (Vec (map (dotp u) (columns b))) else Inl ValueError)"
| "np_dot (Vec u) (Vec w) =
     (if length u = length w then Inr (Scal (dotp u w)) else Inl ValueError)"
| "np_dot (Scal z) b = Inl NotModelled"
| "np_dot a (Scal z) = Inl NotModelled"

text \<open>
  \<^verbatim>\<open>a + b\<close> and \<^verbatim>\<open>a - b\<close>: element by element on arrays of one shape, the only case
  the notebook reaches. On unequal shapes NumPy broadcasts or raises; that is outside the
  fragment.
\<close>

fun np_elementwise :: "(real \<Rightarrow> real \<Rightarrow> real) \<Rightarrow> ndarray \<Rightarrow> ndarray \<Rightarrow> pyerr + ndarray" where
  "np_elementwise f (Vec u) (Vec w) =
     (if length u = length w then Inr (Vec (map2 f u w)) else Inl NotModelled)"
| "np_elementwise f (Mat a) (Mat b) =
     (if map length a = map length b then Inr (Mat (map2 (map2 f) a b)) else Inl NotModelled)"
| "np_elementwise f a b = Inl NotModelled"

definition np_add :: "ndarray \<Rightarrow> ndarray \<Rightarrow> pyerr + ndarray" where
  "np_add = np_elementwise (+)"

definition np_sub :: "ndarray \<Rightarrow> ndarray \<Rightarrow> pyerr + ndarray" where
  "np_sub = np_elementwise (-)"

text \<open>
  \<^verbatim>\<open>numpy.linalg.inv\<close> on the two sizes the notebook inverts: 1 by 1 (the innovation
  covariance) and 2 by 2 (the normal matrix of the batch solution). A singular matrix
  raises \<^verbatim>\<open>LinAlgError\<close>.
\<close>

fun inv_np :: "ndarray \<Rightarrow> pyerr + ndarray" where
  "inv_np (Mat [[s]]) = (if s = 0 then Inl LinAlgError else Inr (Mat [[1 / s]]))"
| "inv_np (Mat [[p, q], [r, s]]) =
     (if p * s - q * r = 0 then Inl LinAlgError
      else Inr (Mat [[s / (p * s - q * r), - q / (p * s - q * r)],
                     [- r / (p * s - q * r), p / (p * s - q * r)]]))"
| "inv_np _ = Inl NotModelled"

text \<open>\<^verbatim>\<open>np.eye(n, m)\<close>.\<close>

definition np_eye :: "nat \<Rightarrow> nat \<Rightarrow> ndarray" where
  "np_eye n m = Mat (map (\<lambda>i. map (\<lambda>j. if i = j then 1 else 0) [0..<m]) [0..<n])"

text \<open>
  \<^verbatim>\<open>a[k]\<close>: on an array of dimension 2 row \<open>k\<close>, an array of dimension 1; on an array of
  dimension 1 element \<open>k\<close>, a scalar; a scalar cannot be indexed.
\<close>

fun np_row :: "ndarray \<Rightarrow> nat \<Rightarrow> pyerr + ndarray" where
  "np_row (Mat rows) k = (if k < length rows then Inr (Vec (rows ! k)) else Inl IndexError)"
| "np_row (Vec u) k = (if k < length u then Inr (Scal (u ! k)) else Inl IndexError)"
| "np_row (Scal z) k = Inl IndexError"

text \<open>
  \<^verbatim>\<open>a[i, j]\<close>: two indices need an array of dimension 2; on an array of smaller dimension
  NumPy raises \<^verbatim>\<open>IndexError\<close> (too many indices).
\<close>

fun np_item2 :: "ndarray \<Rightarrow> nat \<Rightarrow> nat \<Rightarrow> pyerr + real" where
  "np_item2 (Mat rows) i j =
     (if i < length rows \<and> j < length (rows ! i) then Inr (rows ! i ! j) else Inl IndexError)"
| "np_item2 (Vec u) i j = Inl IndexError"
| "np_item2 (Scal z) i j = Inl IndexError"

section \<open>The recursive estimator\<close>

text \<open>
  \<^verbatim>\<open>H_k = np.array([[I[k], 1.0]])\<close>. When \<^verbatim>\<open>I[k]\<close> is a scalar this is the row
  \<open>[[I[k], 1.0]]\<close> of shape (1,2). When \<^verbatim>\<open>I[k]\<close> is itself an array, as it is for the
  notebook's \<^verbatim>\<open>I\<close> of shape (5,1), the nested list is ragged (an array beside the
  number 1.0) and NumPy builds no float array from it: from version 1.24 on it raises
  \<^verbatim>\<open>ValueError\<close> (inhomogeneous shape), which is what the model returns; before that it
  builds an array of objects, on which the \<^verbatim>\<open>inv\<close> of the next statement raises. Either
  way the pass ends with an exception before \<^verbatim>\<open>K_k\<close>, \<^verbatim>\<open>x_k\<close> or \<^verbatim>\<open>P_k\<close> is assigned.
\<close>

fun make_H :: "ndarray \<Rightarrow> pyerr + ndarray" where
  "make_H (Scal i) = Inr (Mat [[i, 1]])"
| "make_H (Vec u) = Inl ValueError"
| "make_H (Mat rows) = Inl ValueError"

text \<open>
  The gain line of the loop body is
  \<^verbatim>\<open>K_k = np.dot(P_k, np.dot(H_k.T, inv(np.dot(H_k, np.dot(P_k, H_k.T)) + R_k)))\<close>.
  Its argument of \<^verbatim>\<open>inv\<close> is the innovation covariance; each line below binds one call
  of the source, innermost call first.
\<close>

definition innovation_covariance :: "ndarray \<Rightarrow> ndarray \<Rightarrow> ndarray \<Rightarrow> pyerr + ndarray" where
  "innovation_covariance R P H_k =
     then_do (np_dot P (np_T H_k)) (\<lambda>PHt.
     then_do (np_dot H_k PHt) (\<lambda>HPHt.
     np_add HPHt R))"

definition gain :: "ndarray \<Rightarrow> ndarray \<Rightarrow> ndarray \<Rightarrow> pyerr + ndarray" where
  "gain R P H_k =
     then_do (innovation_covariance R P H_k) (\<lambda>S.
     then_do (inv_np S) (\<lambda>S_inv.
     then_do (np_dot (np_T H_k) S_inv) (\<lambda>HtS_inv.
     np_dot P HtS_inv)))"

text \<open>
  The right-hand side of \<^verbatim>\<open>x_k = x_k + np.dot(K_k, (V[k] - np.dot(H_k, x_k)))\<close>. The source
  evaluates \<^verbatim>\<open>V[k]\<close> here, so \<open>V_k\<close> is the result of that evaluation and an exception of
  it surfaces here.
\<close>

definition estimate_update ::
  "ndarray \<Rightarrow> ndarray \<Rightarrow> ndarray \<Rightarrow> pyerr + ndarray \<Rightarrow> pyerr + ndarray" where
  "estimate_update x H_k K_k V_k =
     then_do V_k (\<lambda>V_row.
     then_do (np_dot H_k x) (\<lambda>Hx.
     then_do (np_sub V_row Hx) (\<lambda>innovation.
     then_do (np_dot K_k innovation) (\<lambda>correction.
     np_add x correction))))"

text \<open>The right-hand side of \<^verbatim>\<open>P_k = np.dot((np.eye(2,2) - np.dot(K_k, H_k)), P_k)\<close>.\<close>

definition covariance_update :: "ndarray \<Rightarrow> ndarray \<Rightarrow> ndarray \<Rightarrow> pyerr + ndarray" where
  "covariance_update P H_k K_k =
     then_do (np_dot K_k H_k) (\<lambda>KH.
     then_do (np_sub (np_eye 2 2) KH) (\<lambda>I_KH.
     np_dot I_KH P))"

text \<open>
  The variables of the notebook that the recursive cell reads and writes. \<^verbatim>\<open>x_hist\<close>
  has shape (6,2) and \<^verbatim>\<open>P_hist\<close> shape (6,2,2); they are kept as lists of rows and of
  matrices.
\<close>

record notebook =
  I :: ndarray
  V :: ndarray
  x_k :: ndarray
  P_k :: ndarray
  R_k :: ndarray
  num_meas :: nat
  x_hist :: "real list list"
  P_hist :: "real list list list"

text \<open>
  \<^verbatim>\<open>I = np.array([[0.2, 0.3, 0.4, 0.5, 0.6]]).T\<close> and
  \<^verbatim>\<open>V = np.array([[1.23, 1.38, 2.06, 2.47, 3.17]]).T\<close>.
\<close>

definition I_loaded :: ndarray where
  "I_loaded = np_T (Mat [[0.2, 0.3, 0.4, 0.5, 0.6]])"

definition V_loaded :: ndarray where
  "V_loaded = np_T (Mat [[1.23, 1.38, 2.06, 2.47, 3.17]])"

text \<open>\<^verbatim>\<open>a.shape[0]\<close>; a scalar has the empty shape.\<close>

fun shape0 :: "ndarray \<Rightarrow> pyerr + nat" where
  "shape0 (Scal z) = Inl IndexError"
| "shape0 (Vec u) = Inr (length u)"
| "shape0 (Mat rows) = Inr (length rows)"

text \<open>
  \<^verbatim>\<open>x_hist[j] = x_k\<close> and \<^verbatim>\<open>P_hist[j] = P_k\<close>: the stored array must have the shape of
  the slot (other shapes broadcast or raise in NumPy: outside the fragment).
\<close>

fun store_x :: "real list list \<Rightarrow> nat \<Rightarrow> ndarray \<Rightarrow> pyerr + real list list" where
  "store_x hist j (Vec u) =
     (if \<not> j < length hist then Inl IndexError
      else if length u = length (hist ! j) then Inr (hist[j := u])
      else Inl NotModelled)"
| "store_x hist j a = Inl NotModelled"

fun store_P :: "real list list list \<Rightarrow> nat \<Rightarrow> ndarray \<Rightarrow> pyerr + real list list list" where
  "store_P hist j (Mat rows) =
     (if \<not> j < length hist then Inl IndexError
      else if map length rows = map length (hist ! j) then Inr (hist[j := rows])
      else Inl NotModelled)"
| "store_P hist j a = Inl NotModelled"

text \<open>
  The initialisation of the recursive cell, up to the loop:
  \<^verbatim>\<open>x_k = np.array([2.0, 1.0])\<close>, \<^verbatim>\<open>P_k = np.array([[2, 4], [1, 2]])\<close>,
  \<^verbatim>\<open>R_k = np.array([[0.0225]])\<close>, the histories allocated as zeros and their slot 0 set.
  Nothing is in the notebook's state before it, so an exception here leaves no state.
\<close>

definition rls_init :: "ndarray \<Rightarrow> ndarray \<Rightarrow> pyerr + notebook" where
  "rls_init I_in V_in =
     (let x0 = Vec [2.0, 1.0];
          P0 = Mat [[2, 4], [1, 2]];
          R0 = Mat [[0.0225]]
      in then_do (shape0 I_in) (\<lambda>n.
         then_do (store_x (replicate (n + 1) (replicate 2 0)) 0 x0) (\<lambda>xh.
         then_do (store_P (replicate (n + 1) (replicate 2 (replicate 2 0))) 0 P0) (\<lambda>Ph.
         Inr \<lparr>I = I_in, V = V_in, x_k = x0, P_k = P0, R_k = R0, num_meas = n,
              x_hist = xh, P_hist = Ph\<rparr>))))"

text \<open>
  The body of \<^verbatim>\<open>for k in range(num_meas)\<close>, statement by statement: \<^verbatim>\<open>H_k = ...\<close>,
  \<^verbatim>\<open>K_k = ...\<close>, \<^verbatim>\<open>x_k = ...\<close>, \<^verbatim>\<open>P_k = ...\<close>, \<^verbatim>\<open>P_hist[k + 1] = P_k\<close>,
  \<^verbatim>\<open>x_hist[k + 1] = x_k\<close>. The gain and both updates read the \<^verbatim>\<open>P_k\<close> of before the
  pass. A statement that raises ends the pass and leaves the notebook as the statements
  before it have made it.
\<close>

definition rls_body :: "nat \<Rightarrow> notebook \<Rightarrow> pyerr option \<times> notebook" where
  "rls_body k nb =
     (case then_do (np_row (I nb) k) make_H of
        Inl e \<Rightarrow> (Some e, nb)
      | Inr H_k \<Rightarrow>
     (case gain (R_k nb) (P_k nb) H_k of
        Inl e \<Rightarrow> (Some e, nb)
      | Inr K_k \<Rightarrow>
     (case estimate_update (x_k nb) H_k K_k (np_row (V nb) k) of
        Inl e \<Rightarrow> (Some e, nb)
      | Inr x_new \<Rightarrow>
     (case covariance_update (P_k nb) H_k K_k of
        Inl e \<Rightarrow> (Some e, nb\<lparr>x_k := x_new\<rparr>)
      | Inr P_new \<Rightarrow>
     (case store_P (P_hist nb) (k + 1) P_new of
        Inl e \<Rightarrow> (Some e, nb\<lparr>x_k := x_new, P_k := P_new\<rparr>)
      | Inr Ph \<Rightarrow>
     (case store_x (x_hist nb) (k + 1) x_new of
        Inl e \<Rightarrow> (Some e, nb\<lparr>x_k := x_new, P_k := P_new, P_hist := Ph\<rparr>)
      | Inr xh \<Rightarrow>
          (None, nb\<lparr>x_k := x_new, P_k := P_new, P_hist := Ph, x_hist := xh\<rparr>)))))))"

text \<open>The loop over the indices of \<^verbatim>\<open>range(num_meas)\<close>; an exception ends it.\<close>

fun rls_loop :: "nat list \<Rightarrow> notebook \<Rightarrow> pyerr option \<times> notebook" where
  "rls_loop [] nb = (None, nb)"
| "rls_loop (k # ks) nb =
     (case rls_body k nb of
        (Some e, nb') \<Rightarrow> (Some e, nb')
      | (None, nb') \<Rightarrow> rls_loop ks nb')"

text \<open>
  What a cell has written to its output, and the exception that ended it, if any.
\<close>

datatype printed = Text string | Number real

definition header :: string where
  "header = ''The slope and offset parameters of the best-fit line (i.e., the resistance and offset) are [R, b]:''"

text \<open>
  The end of the recursive cell: the header, then \<^verbatim>\<open>print(x_k[0, 0])\<close> and
  \<^verbatim>\<open>print(x_k[1, 0])\<close>.
\<close>

definition rls_print :: "notebook \<Rightarrow> printed list \<times> pyerr option" where
  "rls_print nb =
     (case np_item2 (x_k nb) 0 0 of
        Inl e \<Rightarrow> ([Text header], Some e)
      | Inr R_est \<Rightarrow>
          (case np_item2 (x_k nb) 1 0 of
             Inl e \<Rightarrow> ([Text header, Number R_est], Some e)
           | Inr b_est \<Rightarrow> ([Text header, Number R_est, Number b_est], None)))"

text \<open>
  The recursive cell as a whole: the initialisation, the loop, the three prints. The
  result is what the cell has printed, the exception that ended it, if any, and the
  notebook's state at that point (none when the initialisation raised).
\<close>

definition recursive_cell ::
  "ndarray \<Rightarrow> ndarray \<Rightarrow> printed list \<times> pyerr option \<times> notebook option" where
  "recursive_cell I_in V_in =
     (case rls_init I_in V_in of
        Inl e \<Rightarrow> ([], Some e, None)
      | Inr nb \<Rightarrow>
          (case rls_loop [0..<num_meas nb] nb of
             (Some e, nb') \<Rightarrow> ([], Some e, Some nb')
           | (None, nb') \<Rightarrow> (fst (rls_print nb'), snd (rls_print nb'), Some nb')))"

subsection \<open>The batch solution\<close>

text \<open>\<^verbatim>\<open>a.ravel()\<close>.\<close>

fun np_ravel :: "ndarray \<Rightarrow> real list" where
  "np_ravel (Scal z) = [z]"
| "np_ravel (Vec u) = u"
| "np_ravel (Mat rows) = concat rows"

text \<open>
  \<^verbatim>\<open>H = np.ones((5, 2))\<close> followed by \<^verbatim>\<open>H[:, 0] = I.ravel()\<close>: column 0 takes the five
  currents (another number of them does not fit the column).
\<close>

definition batch_H :: "ndarray \<Rightarrow> pyerr + ndarray" where
  "batch_H I_in =
     (let ones = replicate 5 (replicate 2 (1::real))
      in if length (np_ravel I_in) = 5
         then Inr (Mat (map2 (\<lambda>i row. row[0 := i]) (np_ravel I_in) ones))
         else Inl NotModelled)"

text \<open>\<^verbatim>\<open>x_ls = inv(H.T.dot(H)).dot(H.T.dot(V))\<close>.\<close>

definition batch_solution :: "ndarray \<Rightarrow> ndarray \<Rightarrow> pyerr + ndarray" where
  "batch_solution I_in V_in =
     then_do (batch_H I_in) (\<lambda>H.
     then_do (np_dot (np_T H) H) (\<lambda>HtH.
     then_do (inv_np HtH) (\<lambda>HtH_inv.
     then_do (np_dot (np_T H) V_in) (\<lambda>HtV.
     np_dot HtH_inv HtV))))"

subsection \<open>Predicates of the data model\<close>

text \<open>A matrix is symmetric when it equals its transpose.\<close>

fun is_symmetric :: "ndarray \<Rightarrow> bool" where
  "is_symmetric (Mat rows) = (columns rows = rows)"
| "is_symmetric a = False"

text \<open>The quadratic form \<open>w\<^sup>T P w\<close> of a matrix given by its rows.\<close>

definition quadratic_form :: "real list list \<Rightarrow> real list \<Rightarrow> real" where
  "quadratic_form rows w = dotp w (map (\<lambda>r. dotp r w) rows)"

text \<open>
  The covariance matrices of the data model: 2 by 2, symmetric and non-negative-definite.
  For a symmetric 2 by 2 matrix, non-negative-definite means non-negative diagonal and
  non-negative determinant.
\<close>

fun valid_covariance :: "ndarray \<Rightarrow> bool" where
  "valid_covariance (Mat [[a, b], [c, d]]) = (b = c \<and> 0 \<le> a \<and> 0 \<le> d \<and> b * c \<le> a * d)"
| "valid_covariance _ = False"

section \<open>The longitudinal vehicle model\<close>

text \<open>
  The arithmetic of the numbers the vehicle model computes with. Python's \<^verbatim>\<open>+\<close>, \<^verbatim>\<open>-\<close>
  and \<^verbatim>\<open>*\<close> on floats return a number whatever the operands (rounded, or infinite);
  \<^verbatim>\<open>/\<close> raises \<^verbatim>\<open>ZeroDivisionError\<close> exactly when the divisor is zero and returns a
  number otherwise; \<^verbatim>\<open>** 2\<close> can raise \<^verbatim>\<open>OverflowError\<close> and \<^verbatim>\<open>math.sin\<close> can raise
  \<^verbatim>\<open>ValueError\<close>. \<open>lit\<close> gives the number that a literal of the source denotes. The
  numbers are Python floats and the integers of the constructor; integers too large to
  convert to a float are outside the model.
\<close>

record 'f arith =
  lit :: "real \<Rightarrow> 'f"
  plus_f :: "'f \<Rightarrow> 'f \<Rightarrow> 'f"
  minus_f :: "'f \<Rightarrow> 'f \<Rightarrow> 'f"
  times_f :: "'f \<Rightarrow> 'f \<Rightarrow> 'f"
  quotient_f :: "'f \<Rightarrow> 'f \<Rightarrow> 'f"
  is_zero :: "'f \<Rightarrow> bool"
  square_f :: "'f \<Rightarrow> pyerr + 'f"
  sin_f :: "'f \<Rightarrow> pyerr + 'f"
  abs_less_one :: "'f \<Rightarrow> bool"

text \<open>Python's \<^verbatim>\<open>p / q\<close>.\<close>

definition divide_f :: "'f arith \<Rightarrow> 'f \<Rightarrow> 'f \<Rightarrow> pyerr + 'f" where
  "divide_f ar p q = (if is_zero ar q then Inl ZeroDivisionError else Inr (quotient_f ar p q))"

text \<open>
  The arithmetic of the real numbers: nothing is rounded and neither the square nor the
  sine raises.
\<close>

definition exact :: "real arith" where
  "exact =
     \<lparr>lit = (\<lambda>z. z), plus_f = (+), minus_f = (-), times_f = (*), quotient_f = (/),
      is_zero = (\<lambda>z. z = 0), square_f = (\<lambda>z. Inr (z\<^sup>2)), sin_f = (\<lambda>z. Inr (sin z)),
      abs_less_one = (\<lambda>z. \<bar>z\<bar> < 1)\<rparr>"

text \<open>
  The class \<^verbatim>\<open>Vehicle\<close>: thirteen parameters and five state variables, all attributes of
  the object.
\<close>

record 'f vehicle =
  a_0 :: 'f
  a_1 :: 'f
  a_2 :: 'f
  GR :: 'f
  r_e :: 'f
  J_e :: 'f
  m :: 'f
  g :: 'f
  c_a :: 'f
  c_r1 :: 'f
  c :: 'f
  F_max :: 'f
  x :: 'f
  v :: 'f
  a :: 'f
  w_e :: 'f
  w_e_dot :: 'f
  sample_time :: 'f

text \<open>\<^verbatim>\<open>Vehicle.__init__\<close>.\<close>

definition Vehicle_init :: "'f arith \<Rightarrow> 'f vehicle" where
  "Vehicle_init ar =
     \<lparr>a_0 = lit ar 400, a_1 = lit ar 0.1, a_2 = lit ar (- 0.0002),
      GR = lit ar 0.35, r_e = lit ar 0.3, J_e = lit ar 10, m = lit ar 2000, g = lit ar 9.81,
      c_a = lit ar 1.36, c_r1 = lit ar 0.01,
      c = lit ar 10000, F_max = lit ar 10000,
      x = lit ar 0, v = lit ar 5, a = lit ar 0, w_e = lit ar 100, w_e_dot = lit ar 0,
      sample_time = lit ar 0.01\<rparr>"

text \<open>\<^verbatim>\<open>Vehicle.reset\<close>.\<close>

definition reset :: "'f arith \<Rightarrow> 'f vehicle \<Rightarrow> 'f vehicle" where
  "reset ar self =
     self\<lparr>x := lit ar 0, v := lit ar 5, a := lit ar 0, w_e := lit ar 100, w_e_dot := lit ar 0\<rparr>"

text \<open>
  \<^verbatim>\<open>Vehicle.step\<close>, statement by statement. The object is mutated in place, so an
  exception leaves it with the assignments made so far: the result is the exception
  raised, if any, and the object after the call. The statements that can raise are the
  slip ratio (division by \<^verbatim>\<open>self.v\<close>, already integrated), \<^verbatim>\<open>F_g\<close> (the sine),
  \<^verbatim>\<open>F_aero\<close> and \<^verbatim>\<open>T_e\<close> (the squares), and the two assignments that divide by
  \<^verbatim>\<open>self.m\<close> and \<^verbatim>\<open>self.J_e\<close>.
\<close>

definition step :: "'f arith \<Rightarrow> 'f \<Rightarrow> 'f \<Rightarrow> 'f vehicle \<Rightarrow> pyerr option \<times> 'f vehicle" where
  "step ar throttle alpha self =
     (let x_dot = v self;
          v_dot = a self;
          w_e_dot0 = w_e_dot self;
          self1 = self\<lparr>x := plus_f ar (x self) (times_f ar x_dot (sample_time self))\<rparr>;
          self2 = self1\<lparr>v := plus_f ar (v self1) (times_f ar v_dot (sample_time self1))\<rparr>;
          self3 = self2\<lparr>w_e := plus_f ar (w_e self2) (times_f ar w_e_dot0 (sample_time self2))\<rparr>;
          omega_w = times_f ar (GR self3) (w_e self3)
      in
      case divide_f ar (times_f ar omega_w (r_e self3)) (v self3) of
        Inl e \<Rightarrow> (Some e, self3)
      | Inr ratio \<Rightarrow>
     (let s = minus_f ar ratio (lit ar 1);
          F_x = (if abs_less_one ar s then times_f ar (c self3) s else F_max self3)
      in
      case sin_f ar alpha of
        Inl e \<Rightarrow> (Some e, self3)
      | Inr sin_alpha \<Rightarrow>
     (let F_g = times_f ar (times_f ar (m self3) (g self3)) sin_alpha;
          R_x = times_f ar (c_r1 self3) (v self3)
      in
      case square_f ar (v self3) of
        Inl e \<Rightarrow> (Some e, self3)
      | Inr v_squared \<Rightarrow>
     (let F_aero = times_f ar (c_a self3) v_squared;
          F_load = plus_f ar (plus_f ar F_aero R_x) F_g
      in
      case square_f ar (w_e self3) of
        Inl e \<Rightarrow> (Some e, self3)
      | Inr w_e_squared \<Rightarrow>
     (let T_e = times_f ar throttle
                  (plus_f ar (plus_f ar (a_0 self3) (times_f ar (a_1 self3) (w_e self3)))
                     (times_f ar (a_2 self3) w_e_squared))
      in
      case divide_f ar (minus_f ar F_x F_load) (m self3) of
        Inl e \<Rightarrow> (Some e, self3)
      | Inr a_new \<Rightarrow>
     (let self4 = self3\<lparr>a := a_new\<rparr>
      in
      case divide_f ar
             (minus_f ar T_e (times_f ar (times_f ar (GR self4) (r_e self4)) F_load))
             (J_e self4) of
        Inl e \<Rightarrow> (Some e, self4)
      | Inr w_e_dot_new \<Rightarrow> (None, self4\<lparr>w_e_dot := w_e_dot_new\<rparr>)))))))"

text \<open>The thirteen parameter attributes of an object, in the constructor's order.\<close>

definition parameters :: "'f vehicle \<Rightarrow> 'f list" where
  "parameters self =
     [a_0 self, a_1 self, a_2 self, GR self, r_e self, J_e self, m self, g self,
      c_a self, c_r1 self, c self, F_max self, sample_time self]"

text \<open>The five state variables of an object.\<close>

definition state_variables :: "'f vehicle \<Rightarrow> 'f list" where
  "state_variables self = [x self, v self, a self, w_e self, w_e_dot self]"

text \<open>
  The objects a program can hold: the constructed one, and whatever \<^verbatim>\<open>step\<close> (raising or
  not) and \<^verbatim>\<open>reset\<close> leave.
\<close>

inductive reachable :: "'f arith \<Rightarrow> 'f vehicle \<Rightarrow> bool" for ar :: "'f arith" where
  constructed: "reachable ar (Vehicle_init ar)"
| stepped: "reachable ar self \<Longrightarrow> reachable ar (snd (step ar throttle alpha self))"
| was_reset: "reachable ar self \<Longrightarrow> reachable ar (reset ar self)"

section \<open>The run of the recursive cell\<close>

lemmas np_defs =
  then_do_def dotp_def ncols_def column_def columns_def np_add_def np_sub_def np_eye_def

lemma upt_0_5: "[0..<5] = [0, 1, 2, 3, 4]"
  by (simp add: upt_rec)

lemma I_loaded_rows: "I_loaded = Mat [[0.2], [0.3], [0.4], [0.5], [0.6]]"
  by (simp add: I_loaded_def np_defs upt_rec)

lemma V_loaded_rows: "V_loaded = Mat [[1.23], [1.38], [2.06], [2.47], [3.17]]"
  by (simp add: V_loaded_def np_defs upt_rec)

lemma rls_init_loaded:
  "rls_init I_loaded V_loaded =
     Inr \<lparr>I = I_loaded, V = V_loaded, x_k = Vec [2, 1], P_k = Mat [[2, 4], [1, 2]],
          R_k = Mat [[0.0225]], num_meas = 5,
          x_hist = [[2, 1], [0, 0], [0, 0], [0, 0], [0, 0], [0, 0]],
          P_hist = [[[2, 4], [1, 2]], [[0, 0], [0, 0]], [[0, 0], [0, 0]], [[0, 0], [0, 0]],
                    [[0, 0], [0, 0]], [[0, 0], [0, 0]]]\<rparr>"
  by (simp add: rls_init_def I_loaded_rows then_do_def Let_def numeral_eq_Suc)

text \<open>
  With \<^verbatim>\<open>I\<close> an array of dimension 2, \<^verbatim>\<open>I[k]\<close> is an array and the statement that
  builds \<^verbatim>\<open>H_k\<close> raises: the pass ends there and the notebook is as it was.
\<close>

lemma H_k_raises:
  assumes "k < length rows"
  shows "then_do (np_row (Mat rows) k) make_H = Inl ValueError"
  using assms by (simp add: then_do_def)

lemma rls_body_raises:
  assumes "I nb = Mat rows" and "k < length rows"
  shows "rls_body k nb = (Some ValueError, nb)"
  unfolding rls_body_def assms(1) H_k_raises [OF assms(2)] by simp

lemma rls_loop_loaded:
  "rls_loop [0..<5] (projr (rls_init I_loaded V_loaded)) =
     (Some ValueError, projr (rls_init I_loaded V_loaded))"
proof -
  have "rls_body 0 (projr (rls_init I_loaded V_loaded)) =
        (Some ValueError, projr (rls_init I_loaded V_loaded))"
    unfolding rls_init_loaded
    by (rule rls_body_raises [where rows = "[[0.2], [0.3], [0.4], [0.5], [0.6]]"])
       (simp_all add: I_loaded_rows)
  then show ?thesis by (simp add: upt_0_5)
qed

lemma recursive_cell_loaded:
  "recursive_cell I_loaded V_loaded =
     ([], Some ValueError, Some (projr (rls_init I_loaded V_loaded)))"
proof -
  have "num_meas (projr (rls_init I_loaded V_loaded)) = 5"
    by (simp add: rls_init_loaded)
  then show ?thesis
    using rls_loop_loaded by (simp add: recursive_cell_def rls_init_loaded)
qed

text \<open>
  The batch solution in the exact arithmetic of the literals; float64 gives these two
  numbers up to rounding.
\<close>

lemma batch_solution_loaded:
  "batch_solution I_loaded V_loaded = Inr (Mat [[497 / 100], [37 / 500]])"
  by (simp add: batch_solution_def batch_H_def I_loaded_rows V_loaded_rows np_defs Let_def
      numeral_eq_Suc upt_rec)

lemma is_symmetric_2x2:
  fixes a b c d :: real
  shows "is_symmetric (Mat [[a, b], [c, d]]) \<longleftrightarrow> b = c"
  by (auto simp add: np_defs upt_rec)

text \<open>
  Claim C1. The claim is that the five recursive updates end near a resistance of 5 and an
  offset of 0, within two decimal places of the batch solution. The recursive cell raises
  in its first pass, at the statement that builds \<^verbatim>\<open>H_k\<close>: it makes no update, prints
  nothing, and its estimate stays the initial \<open>[2, 1]\<close>, with only slot 0 of the history
  written.
\<close>

theorem recursive_estimate_stays_initial:
  "\<exists>nb. recursive_cell I_loaded V_loaded = ([], Some ValueError, Some nb) \<and>
         x_k nb = Vec [2, 1] \<and>
         x_hist nb = [[2, 1], [0, 0], [0, 0], [0, 0], [0, 0], [0, 0]]"
  by (simp add: recursive_cell_loaded) (simp add: rls_init_loaded)

text \<open>
  Claim C2. The claim is that one pass of the loop computes the innovation covariance,
  the gain, the new estimate and the new covariance. Whenever \<^verbatim>\<open>I\<close> is an array of
  dimension 2 with a row \<open>k\<close>, as the notebook's \<^verbatim>\<open>I\<close> of shape (5,1) is for each of its
  five passes, pass \<open>k\<close> raises at the statement that builds \<^verbatim>\<open>H_k\<close>, whatever the
  estimate, the covariance, the noise variance and the measurements are: it computes
  none of the four and leaves the notebook unchanged.
\<close>

theorem loop_body_raises_before_gain:
  assumes "I nb = Mat rows" and "k < length rows"
  shows "then_do (np_row (I nb) k) make_H = Inl ValueError \<and>
         rls_body k nb = (Some ValueError, nb)"
  using assms H_k_raises [OF assms(2)] rls_body_raises [OF assms] by simp

theorem loop_body_raises_before_gain_witness:
  "I (projr (rls_init I_loaded V_loaded)) = Mat [[0.2], [0.3], [0.4], [0.5], [0.6]] \<and>
   (4::nat) < length [[0.2], [0.3], [0.4], [0.5], [0.6 :: real]] \<and>
   then_do (np_row (I (projr (rls_init I_loaded V_loaded))) 4) make_H = Inl ValueError \<and>
   rls_body 4 (projr (rls_init I_loaded V_loaded)) =
     (Some ValueError, projr (rls_init I_loaded V_loaded))"
proof -
  have h1: "I (projr (rls_init I_loaded V_loaded)) = Mat [[0.2], [0.3], [0.4], [0.5], [0.6]]"
    unfolding rls_init_loaded by (simp add: I_loaded_rows)
  have h2: "(4::nat) < length [[0.2], [0.3], [0.4], [0.5], [0.6 :: real]]"
    by simp
  from loop_body_raises_before_gain [OF h1 h2] h1 h2 show ?thesis by blast
qed

text \<open>
  Claim C4. The claim is that every covariance the program holds is symmetric and
  non-negative-definite, the initial one with zero off-diagonal elements. The program
  starts from \<open>[[2, 4], [1, 2]]\<close>, whose off-diagonal elements are 4 and 1 and whose
  quadratic form is negative at \<open>[1, -1]\<close>.
\<close>

theorem program_covariance_not_symmetric:
  "map_sum id P_k (rls_init I_loaded V_loaded) = Inr (Mat [[2, 4], [1, 2]]) \<and>
   \<not> is_symmetric (Mat [[2, 4], [1, 2]]) \<and>
   \<not> valid_covariance (Mat [[2, 4], [1, 2]]) \<and>
   quadratic_form [[2, 4], [1, 2]] [1, - 1] = - 1"
  by (simp add: rls_init_loaded is_symmetric_2x2 quadratic_form_def dotp_def
      del: is_symmetric.simps)

text \<open>
  Claim C5. The claim is that the inversion in the gain computation is always defined and
  the update never fails, and that the inversion succeeds in each of the five passes of
  the program's run. In the run the loop ends in pass 0 with the exception of the
  statement that builds \<^verbatim>\<open>H_k\<close>: the gain statement, and with it \<^verbatim>\<open>inv\<close>, is never
  reached, and the five slots that the passes would fill in \<^verbatim>\<open>P_hist\<close> keep their zeros.
\<close>

theorem run_never_reaches_inversion:
  "then_do (np_row I_loaded 0) make_H = Inl ValueError \<and>
   fst (rls_loop [0..<5] (projr (rls_init I_loaded V_loaded))) = Some ValueError \<and>
   P_hist (snd (rls_loop [0..<5] (projr (rls_init I_loaded V_loaded)))) =
     [[[2, 4], [1, 2]], [[0, 0], [0, 0]], [[0, 0], [0, 0]], [[0, 0], [0, 0]],
      [[0, 0], [0, 0]], [[0, 0], [0, 0]]]"
proof (intro conjI)
  show "then_do (np_row I_loaded 0) make_H = Inl ValueError"
    by (simp add: I_loaded_rows then_do_def)
  show "fst (rls_loop [0..<5] (projr (rls_init I_loaded V_loaded))) = Some ValueError"
    by (simp only: rls_loop_loaded fst_conv)
  show "P_hist (snd (rls_loop [0..<5] (projr (rls_init I_loaded V_loaded)))) =
     [[[2, 4], [1, 2]], [[0, 0], [0, 0]], [[0, 0], [0, 0]], [[0, 0], [0, 0]],
      [[0, 0], [0, 0]], [[0, 0], [0, 0]]]"
    by (simp only: rls_loop_loaded snd_conv) (simp add: rls_init_loaded)
qed

text \<open>
  Claim C8. The claim is that the program prints the final \<open>[R, b]\<close> after the fifth
  update. The recursive cell raises in its first pass and prints nothing. Its print
  statements would not print the estimate either: \<^verbatim>\<open>x_k\<close> is created with dimension 1,
  and on such an array \<^verbatim>\<open>print(x_k[0, 0])\<close> raises \<^verbatim>\<open>IndexError\<close> after the header line.
\<close>

theorem recursive_cell_prints_nothing:
  "fst (recursive_cell I_loaded V_loaded) = [] \<and>
   fst (snd (recursive_cell I_loaded V_loaded)) = Some ValueError \<and>
   map_sum id x_k (rls_init I_loaded V_loaded) = Inr (Vec [2, 1]) \<and>
   rls_print (projr (rls_init I_loaded V_loaded)) = ([Text header], Some IndexError)"
  by (simp add: recursive_cell_loaded) (simp add: rls_init_loaded rls_print_def)

section \<open>The vehicle: exceptions and frame\<close>

lemma parameters_step: "parameters (snd (step ar throttle alpha self)) = parameters self"
  by (simp add: step_def Let_def parameters_def split: sum.splits)

lemma parameters_reset: "parameters (reset ar self) = parameters self"
  by (simp add: reset_def parameters_def)

lemma state_variables_reset:
  "state_variables (reset ar self) = [lit ar 0, lit ar 5, lit ar 0, lit ar 100, lit ar 0]"
  by (simp add: reset_def state_variables_def)

lemma state_variables_init:
  "state_variables (Vehicle_init ar) = [lit ar 0, lit ar 5, lit ar 0, lit ar 100, lit ar 0]"
  by (simp add: Vehicle_init_def state_variables_def)

lemma reachable_parameters:
  assumes "reachable ar self"
  shows "parameters self = parameters (Vehicle_init ar)"
  using assms
proof (induction rule: reachable.induct)
  case constructed
  show ?case by simp
next
  case (stepped self throttle alpha)
  then show ?case by (simp add: parameters_step)
next
  case (was_reset self)
  then show ?case by (simp add: parameters_reset)
qed

lemma vehicle_determined:
  fixes s t :: "'f vehicle"
  assumes "parameters s = parameters t" and "state_variables s = state_variables t"
  shows "s = t"
  using assms by (cases s, cases t) (simp add: parameters_def state_variables_def)

lemma reset_reachable:
  assumes "reachable ar self"
  shows "reset ar self = Vehicle_init ar"
proof (rule vehicle_determined)
  show "parameters (reset ar self) = parameters (Vehicle_init ar)"
    using assms by (simp add: parameters_reset reachable_parameters)
  show "state_variables (reset ar self) = state_variables (Vehicle_init ar)"
    by (simp add: state_variables_reset state_variables_init)
qed

text \<open>
  Claim C10. For every arithmetic and every object reachable from the constructor by
  calls of \<^verbatim>\<open>step\<close> (raising or not) and \<^verbatim>\<open>reset\<close>, \<^verbatim>\<open>reset\<close> sets the five state variables
  to the constructor's values \<open>x = 0\<close>, \<open>v = 5\<close>, \<open>a = 0\<close>, \<open>w_e = 100\<close>, \<open>w_e_dot = 0\<close>, so that
  the object equals a newly constructed one, and neither \<^verbatim>\<open>reset\<close> nor \<^verbatim>\<open>step\<close> changes
  any of the thirteen parameters.
\<close>

theorem reset_restores_state_parameters_kept:
  assumes "reachable ar self"
  shows "state_variables (reset ar self) =
           [lit ar 0, lit ar 5, lit ar 0, lit ar 100, lit ar 0] \<and>
         state_variables (reset ar self) = state_variables (Vehicle_init ar) \<and>
         reset ar self = Vehicle_init ar \<and>
         parameters (reset ar self) = parameters self \<and>
         parameters (snd (step ar throttle alpha self)) = parameters self"
proof (intro conjI)
  show "state_variables (reset ar self) = [lit ar 0, lit ar 5, lit ar 0, lit ar 100, lit ar 0]"
    by (rule state_variables_reset)
  show "state_variables (reset ar self) = state_variables (Vehicle_init ar)"
    by (simp only: state_variables_reset state_variables_init)
  show "reset ar self = Vehicle_init ar"
    using assms by (rule reset_reachable)
  show "parameters (reset ar self) = parameters self"
    by (rule parameters_reset)
  show "parameters (snd (step ar throttle alpha self)) = parameters self"
    by (rule parameters_step)
qed

theorem reset_restores_state_parameters_kept_witness:
  "reachable exact (snd (step exact 0.2 0 (Vehicle_init exact))) \<and>
   x (snd (step exact 0.2 0 (Vehicle_init exact))) = 0.05 \<and>
   state_variables (reset exact (snd (step exact 0.2 0 (Vehicle_init exact)))) =
     [0, 5, 0, 100, 0] \<and>
   reset exact (snd (step exact 0.2 0 (Vehicle_init exact))) = Vehicle_init exact \<and>
   parameters (snd (step exact 0.5 0 (snd (step exact 0.2 0 (Vehicle_init exact))))) =
     parameters (snd (step exact 0.2 0 (Vehicle_init exact)))"
proof -
  have r: "reachable exact (snd (step exact 0.2 0 (Vehicle_init exact)))"
    by (intro reachable.intros)
  have p: "x (snd (step exact 0.2 0 (Vehicle_init exact))) = 0.05"
    by (simp add: step_def Vehicle_init_def Let_def exact_def divide_f_def)
  have l: "[lit exact 0, lit exact 5, lit exact 0, lit exact 100, lit exact 0] =
           [0, 5, 0, 100, 0 :: real]"
    by (simp add: exact_def)
  from reset_restores_state_parameters_kept [OF r, of "0.5" 0]
  have "state_variables (reset exact (snd (step exact 0.2 0 (Vehicle_init exact)))) =
          [0, 5, 0, 100, 0] \<and>
        reset exact (snd (step exact 0.2 0 (Vehicle_init exact))) = Vehicle_init exact \<and>
        parameters (snd (step exact 0.5 0 (snd (step exact 0.2 0 (Vehicle_init exact))))) =
          parameters (snd (step exact 0.2 0 (Vehicle_init exact)))"
    unfolding l by blast
  with r p show ?thesis by blast
qed





end
